theory Spec2Isabelle
  imports Complex_Main "HOL-Library.Signed_Division"
begin

section \<open>Conventions of the embedding\<close>

text \<open>
  The host program of the ray tracer (\<^verbatim>\<open>main.cpp\<close>, \<^verbatim>\<open>black_hole_cuda.h\<close>) computes with
  C++ \<^verbatim>\<open>float\<close> and \<^verbatim>\<open>double\<close>. Both are embedded as \<^typ>\<open>real\<close>: every arithmetic
  operation is exact, \<^verbatim>\<open>M_PI\<close> is \<^term>\<open>pi\<close>, a decimal literal is its decimal value
  (\<^verbatim>\<open>1.269e10f\<close> is \<open>1.269 * 10 ^ 10\<close>), and
  the conversions \<^verbatim>\<open>float(...)\<close> between the two are the identity. Rounding, overflow
  to infinity and NaN are therefore outside the model of the host program.
  The state of a ray inside the kernel is the exception: the specification has a rule
  for rays whose position or velocity is not finite, so the fields of \<^verbatim>\<open>CudaRay\<close> are
  values of the type \<open>f32\<close> below, which has the infinities and NaN.
  C++ \<^verbatim>\<open>int\<close> is \<^typ>\<open>int\<close>; the remainder \<^verbatim>\<open>%\<close> truncates towards zero and is
  \<open>smod\<close>.
\<close>

section \<open>GLM: vectors\<close>

text \<open>
  \<^verbatim>\<open>glm::vec3\<close> with the functions of GLM the program calls, as GLM defines them:
  \<^verbatim>\<open>clamp(x, lo, hi) = min(max(x, lo), hi)\<close>,
  \<^verbatim>\<open>normalize(v) = v * inversesqrt(dot(v, v))\<close>, \<^verbatim>\<open>radians(d) = d * pi / 180\<close>.
  The components are read with \<open>vx\<close>, \<open>vy\<close>, \<open>vz\<close>.
\<close>

datatype vec3 = Vec3 (vx: real) (vy: real) (vz: real)

definition vsub :: "vec3 \<Rightarrow> vec3 \<Rightarrow> vec3" where
  "vsub a b = Vec3 (vx a - vx b) (vy a - vy b) (vz a - vz b)"

definition dot :: "vec3 \<Rightarrow> vec3 \<Rightarrow> real" where
  "dot a b = vx a * vx b + vy a * vy b + vz a * vz b"

definition cross :: "vec3 \<Rightarrow> vec3 \<Rightarrow> vec3" where
  "cross a b = Vec3 (vy a * vz b - vz a * vy b)
                    (vz a * vx b - vx a * vz b)
                    (vx a * vy b - vy a * vx b)"

text \<open>
  For the zero vector \<^verbatim>\<open>glm::normalize\<close> divides zero by zero and returns NaN components,
  where \<open>normalize\<close> returns the zero vector; the program only normalises non-zero
  vectors, as the proof of the camera basis shows.
\<close>

definition normalize :: "vec3 \<Rightarrow> vec3" where
  "normalize v = Vec3 (vx v / sqrt (dot v v)) (vy v / sqrt (dot v v)) (vz v / sqrt (dot v v))"

definition clamp :: "real \<Rightarrow> real \<Rightarrow> real \<Rightarrow> real" where
  "clamp v lo hi = min (max v lo) hi"

definition radians :: "real \<Rightarrow> real" where
  "radians d = d * pi / 180"

section \<open>GLFW: the constants the program compares with\<close>

definition GLFW_RELEASE :: int where "GLFW_RELEASE = 0"
definition GLFW_PRESS :: int where "GLFW_PRESS = 1"
definition GLFW_MOUSE_BUTTON_LEFT :: int where "GLFW_MOUSE_BUTTON_LEFT = 0"
definition GLFW_KEY_P :: int where "GLFW_KEY_P = 80"
definition GLFW_KEY_R :: int where "GLFW_KEY_R = 82"

section \<open>black\_hole\_cuda.h\<close>

definition SAGA_RS :: real where "SAGA_RS = 1.269 * 10 ^ 10"
definition D_LAMBDA :: real where "D_LAMBDA = 10 ^ 7"
definition ESCAPE_R :: real where "ESCAPE_R = 10 ^ 30"
definition MAX_RAY_STEPS :: nat where "MAX_RAY_STEPS = 100000"

text \<open>
  A \<^verbatim>\<open>float\<close> that need not be finite: a real number, an infinity or NaN. The
  comparisons with a finite bound are those of IEEE 754: NaN compares false with
  everything. \<open>exceeds v c\<close> is \<^verbatim>\<open>v > c\<close>, \<open>at_most v c\<close> is \<^verbatim>\<open>v <= c\<close> and
  \<open>at_least v c\<close> is \<^verbatim>\<open>v >= c\<close>.
\<close>

datatype f32 = Finite real | PosInf | NegInf | NaN

fun is_finite :: "f32 \<Rightarrow> bool" where
  "is_finite (Finite x) = True"
| "is_finite PosInf = False"
| "is_finite NegInf = False"
| "is_finite NaN = False"

fun exceeds :: "f32 \<Rightarrow> real \<Rightarrow> bool" where
  "exceeds (Finite x) c = (c < x)"
| "exceeds PosInf c = True"
| "exceeds NegInf c = False"
| "exceeds NaN c = False"

fun at_most :: "f32 \<Rightarrow> real \<Rightarrow> bool" where
  "at_most (Finite x) c = (x \<le> c)"
| "at_most PosInf c = False"
| "at_most NegInf c = True"
| "at_most NaN c = False"

fun at_least :: "f32 \<Rightarrow> real \<Rightarrow> bool" where
  "at_least (Finite x) c = (c \<le> x)"
| "at_least PosInf c = True"
| "at_least NegInf c = False"
| "at_least NaN c = False"

text \<open>
  \<^verbatim>\<open>struct CudaRay\<close>. Its fields \<^verbatim>\<open>x, y, z, r, theta, phi, dr, dtheta, dphi, E, L\<close>
  carry the prefix \<open>ray_\<close> here.
\<close>

record CudaRay =
  ray_x :: f32
  ray_y :: f32
  ray_z :: f32
  ray_r :: f32
  ray_theta :: f32
  ray_phi :: f32
  ray_dr :: f32
  ray_dtheta :: f32
  ray_dphi :: f32
  ray_E :: f32
  ray_L :: f32

text \<open>\<^verbatim>\<open>struct CudaCamera\<close>; its field \<^verbatim>\<open>moving\<close> is \<open>cam_moving\<close>.\<close>

record CudaCamera =
  position :: vec3
  right :: vec3
  up :: vec3
  forward :: vec3
  tanHalfFov :: real
  aspect :: real
  cam_moving :: bool

record AccretionDisk =
  innerRadius :: real
  outerRadius :: real
  thickness :: real
  temperature :: real

text \<open>\<^verbatim>\<open>struct BlackHole\<close>; its field \<^verbatim>\<open>position\<close> is \<open>bh_position\<close>.\<close>

record BlackHole =
  bh_position :: vec3
  mass :: real
  schwarzschildRadius :: real

section \<open>main.cpp: the camera controller\<close>

record CudaCameraController =
  target :: vec3
  radius :: real
  minRadius :: real
  maxRadius :: real
  azimuth :: real
  elevation :: real
  orbitSpeed :: real
  zoomSpeed :: real
  dragging :: bool
  moving :: bool
  lastX :: real
  lastY :: real

text \<open>The member initialisers of the class.\<close>

definition initial_controller :: CudaCameraController where
  "initial_controller =
     \<lparr> target = Vec3 0 0 0, radius = 6.34194 * 10 ^ 10, minRadius = 10 ^ 10, maxRadius = 10 ^ 12,
       azimuth = 0, elevation = pi / 2, orbitSpeed = 0.01, zoomSpeed = 25 * 10 ^ 9,
       dragging = False, moving = False, lastX = 0, lastY = 0 \<rparr>"

definition getCamera :: "CudaCameraController \<Rightarrow> int \<Rightarrow> int \<Rightarrow> CudaCamera" where
  "getCamera c w h =
     (let clampedElevation = clamp (elevation c) 0.01 (pi - 0.01);
          pos = Vec3 (radius c * sin clampedElevation * cos (azimuth c))
                     (radius c * cos clampedElevation)
                     (radius c * sin clampedElevation * sin (azimuth c));
          fwd = normalize (vsub (target c) pos);
          worldUp = Vec3 0 1 0;
          rgt = normalize (cross fwd worldUp);
          upv = normalize (cross rgt fwd)
      in \<lparr> position = pos, right = rgt, up = upv, forward = fwd,
           tanHalfFov = tan (radians 60 * 0.5),
           aspect = real_of_int w / real_of_int h,
           cam_moving = moving c \<rparr>)"

definition processMouseMove :: "real \<Rightarrow> real \<Rightarrow> CudaCameraController \<Rightarrow> CudaCameraController" where
  "processMouseMove x y c =
     (if \<not> dragging c then c
      else
        let dx = x - lastX c;
            dy = y - lastY c;
            c1 = c\<lparr>azimuth := azimuth c + dx * orbitSpeed c\<rparr>;
            c2 = c1\<lparr>elevation := elevation c1 - dy * orbitSpeed c1\<rparr>;
            c3 = c2\<lparr>elevation := clamp (elevation c2) 0.01 (pi - 0.01)\<rparr>
        in c3\<lparr>lastX := x, lastY := y, moving := True\<rparr>)"

text \<open>
  \<^verbatim>\<open>glfwGetCursorPos(win, &lastX, &lastY)\<close> stores the cursor position of the window;
  the position is the argument \<open>cursor\<close>.
\<close>

definition processMouseButton :: "int \<Rightarrow> int \<Rightarrow> real \<times> real \<Rightarrow> CudaCameraController \<Rightarrow> CudaCameraController" where
  "processMouseButton button action cursor c =
     (if button = GLFW_MOUSE_BUTTON_LEFT then
        (if action = GLFW_PRESS then
           c\<lparr>dragging := True, lastX := fst cursor, lastY := snd cursor, moving := True\<rparr>
         else if action = GLFW_RELEASE then
           c\<lparr>dragging := False, moving := False\<rparr>
         else c)
      else c)"

definition processScroll :: "real \<Rightarrow> real \<Rightarrow> CudaCameraController \<Rightarrow> CudaCameraController" where
  "processScroll xoffset yoffset c =
     (let c1 = c\<lparr>radius := radius c - yoffset * zoomSpeed c\<rparr>;
          c2 = c1\<lparr>radius := clamp (radius c1) (minRadius c1) (maxRadius c1)\<rparr>
      in c2\<lparr>moving := True\<rparr>)"

text \<open>
  \<^verbatim>\<open>processKey\<close> keeps the preset number in a function-local \<^verbatim>\<open>static int preset = 0\<close>.
  The static outlives the call, so it is part of the state: \<open>processKey\<close> takes the
  controller together with the preset and returns both. The console output is left out.
\<close>

definition processKey :: "int \<Rightarrow> int \<Rightarrow> int \<Rightarrow> int \<Rightarrow> CudaCameraController \<times> int \<Rightarrow> CudaCameraController \<times> int" where
  "processKey key scancode action mods s =
     (let c = fst s; preset = snd s in
      if action = GLFW_PRESS then
        (let s1 =
           (if key = GLFW_KEY_R then
              (c\<lparr>radius := 6.34194 * 10 ^ 10, azimuth := 0, elevation := pi / 2\<rparr>, preset)
            else if key = GLFW_KEY_P then
              (let preset1 = (preset + 1) smod 3 in
               if preset1 = 0 then
                 (c\<lparr>radius := 6.34194 * 10 ^ 10, azimuth := 0, elevation := pi / 2\<rparr>, preset1)
               else if preset1 = 1 then
                 (c\<lparr>radius := 8.0 * 10 ^ 10, azimuth := 0, elevation := 0.3\<rparr>, preset1)
               else if preset1 = 2 then
                 (c\<lparr>radius := 3.0 * 10 ^ 10, azimuth := pi / 4, elevation := pi / 3\<rparr>, preset1)
               else (c, preset1))
            else (c, preset))
         in ((fst s1)\<lparr>moving := True\<rparr>, snd s1))
      else s)"

text \<open>
  The callbacks installed by \<^verbatim>\<open>initOpenGL\<close> forward each window event to the controller.
  An event carries the arguments GLFW passes to its callback; a mouse-button event also
  carries the cursor position that \<^verbatim>\<open>glfwGetCursorPos\<close> returns during the callback.
\<close>

datatype event =
    MouseButton int int "real \<times> real"
  | CursorPos real real
  | Scroll real real
  | Key int int int int

fun dispatch :: "CudaCameraController \<times> int \<Rightarrow> event \<Rightarrow> CudaCameraController \<times> int" where
  "dispatch s (MouseButton button action cursor) = (processMouseButton button action cursor (fst s), snd s)"
| "dispatch s (CursorPos x y) = (processMouseMove x y (fst s), snd s)"
| "dispatch s (Scroll xoffset yoffset) = (processScroll xoffset yoffset (fst s), snd s)"
| "dispatch s (Key key scancode action mods) = processKey key scancode action mods s"

text \<open>The controller after a sequence of events, from the state the program starts in.\<close>

definition initial_state :: "CudaCameraController \<times> int" where
  "initial_state = (initial_controller, 0)"

definition after_events :: "event list \<Rightarrow> CudaCameraController \<times> int" where
  "after_events evs = foldl dispatch initial_state evs"

section \<open>main.cpp: the renderer\<close>

text \<open>
  \<^verbatim>\<open>float4\<close> of the CUDA runtime: one RGBA pixel of the output buffer.
\<close>

datatype float4 = Float4 real real real real

text \<open>
  The members of \<^verbatim>\<open>class CudaRenderer\<close> that hold values. The pointer \<^verbatim>\<open>d_output\<close> and
  the handle \<^verbatim>\<open>textureId\<close> are represented by what they refer to: the contents of the
  device buffer and the image of the OpenGL texture, both in row-major pixel order. The
  window, the vertex data and the shader program play no part in the properties below.
\<close>

record CudaRenderer =
  width :: int
  height :: int
  disk :: AccretionDisk
  blackHole :: BlackHole
  cameraController :: CudaCameraController
  d_output :: "float4 list"
  texture :: "float4 list"

text \<open>
  The ways the program stops early: a \<^verbatim>\<open>std::runtime_error\<close> thrown by \<^verbatim>\<open>initOpenGL\<close>
  (caught in \<^verbatim>\<open>main\<close>, which returns -1), and \<^verbatim>\<open>exit(1)\<close> in the macros \<^verbatim>\<open>CUDA_CHECK\<close>
  and \<^verbatim>\<open>GL_CHECK\<close>.
\<close>

datatype failure = RuntimeError string | Exit1

text \<open>
  What the libraries answer during construction: whether each checked call succeeds, and
  the undefined initial contents of the buffer (\<^verbatim>\<open>cudaMalloc\<close>) and of the texture
  (\<^verbatim>\<open>glTexImage2D\<close> with a null pointer).
\<close>

record init_env =
  glfwInit_ok :: bool
  glfwCreateWindow_ok :: bool
  glewInit_ok :: bool
  gl_texture_ok :: bool
  gl_quad_ok :: bool
  cudaSetDevice_ok :: bool
  cudaGraphicsGLRegisterImage_ok :: bool
  cudaMalloc_ok :: bool
  cudaGetDeviceProperties_ok :: bool
  malloc_contents :: "nat \<Rightarrow> float4"
  texture_contents :: "nat \<Rightarrow> float4"

definition initOpenGL :: "init_env \<Rightarrow> failure option" where
  "initOpenGL env =
     (if \<not> glfwInit_ok env then Some (RuntimeError ''Failed to initialize GLFW'')
      else if \<not> glfwCreateWindow_ok env then Some (RuntimeError ''Failed to create GLFW window'')
      else if \<not> glewInit_ok env then Some (RuntimeError ''Failed to initialize GLEW'')
      else if \<not> gl_texture_ok env then Some Exit1
      else if \<not> gl_quad_ok env then Some Exit1
      else None)"

definition initCUDA :: "init_env \<Rightarrow> failure option" where
  "initCUDA env =
     (if \<not> cudaSetDevice_ok env then Some Exit1
      else if \<not> cudaGraphicsGLRegisterImage_ok env then Some Exit1
      else if \<not> cudaMalloc_ok env then Some Exit1
      else if \<not> cudaGetDeviceProperties_ok env then Some Exit1
      else None)"

text \<open>The number of pixels of the buffer, \<^verbatim>\<open>width * height\<close>.\<close>

definition pixel_count :: "int \<Rightarrow> int \<Rightarrow> nat" where
  "pixel_count w h = nat (w * h)"

text \<open>
  The constructor \<^verbatim>\<open>CudaRenderer(int w, int h)\<close>. \<open>configured\<close> is the object after the
  member initialisers and the assignments at the head of the constructor, with the
  buffer and the texture as \<^verbatim>\<open>initCUDA\<close> and \<^verbatim>\<open>initOpenGL\<close> create them; the constructor
  returns it when no initialisation step fails.
\<close>

definition configured :: "init_env \<Rightarrow> int \<Rightarrow> int \<Rightarrow> CudaRenderer" where
  "configured env w h =
     \<lparr> width = w, height = h,
       disk = \<lparr> innerRadius = SAGA_RS * 3.0, outerRadius = SAGA_RS * 20.0,
                thickness = SAGA_RS * 0.1, temperature = 50000.0 \<rparr>,
       blackHole = \<lparr> bh_position = Vec3 0 0 0, mass = 8.54 * 10 ^ 36,
                     schwarzschildRadius = SAGA_RS \<rparr>,
       cameraController = initial_controller,
       d_output = map (malloc_contents env) [0..<pixel_count w h],
       texture = map (texture_contents env) [0..<pixel_count w h] \<rparr>"

definition CudaRenderer_new :: "init_env \<Rightarrow> int \<Rightarrow> int \<Rightarrow> failure + CudaRenderer" where
  "CudaRenderer_new env w h =
     (case initOpenGL env of
        Some f \<Rightarrow> Inl f
      | None \<Rightarrow>
          (case initCUDA env of
             Some f \<Rightarrow> Inl f
           | None \<Rightarrow> Inr (configured env w h)))"

text \<open>
  The arguments of one call of \<^verbatim>\<open>launchPhotorealisticKernel\<close>, without the output
  pointer (always \<^verbatim>\<open>d_output\<close>) and the stream (always the default).
\<close>

record kernel_args =
  k_camera :: CudaCamera
  k_disk :: AccretionDisk
  k_blackHole :: BlackHole
  k_width :: int
  k_height :: int
  k_time :: real

text \<open>
  The state of a running session: the renderer object, the static \<^verbatim>\<open>preset\<close> of
  \<^verbatim>\<open>processKey\<close>, the close flag of the window, \<^verbatim>\<open>frameCount\<close>, the kernel that has been
  launched and not yet waited for, and two logs: the arguments of every kernel launch, and
  the image shown by every \<^verbatim>\<open>glfwSwapBuffers\<close>.
\<close>

record session =
  renderer :: CudaRenderer
  preset :: int
  shouldClose :: bool
  frameCount :: int
  in_flight :: "kernel_args option"
  launched :: "kernel_args list"
  presented :: "float4 list list"

definition start_session :: "CudaRenderer \<Rightarrow> session" where
  "start_session r =
     \<lparr> renderer = r, preset = 0, shouldClose = False, frameCount = 0,
       in_flight = None, launched = [], presented = [] \<rparr>"

text \<open>
  What the environment supplies in one iteration of the loop of \<^verbatim>\<open>run\<close>: the events
  that \<^verbatim>\<open>glfwPollEvents\<close> dispatches and whether the user asked to close the window, the
  state of the escape key, the reading of \<^verbatim>\<open>high_resolution_clock::now()\<close> in seconds,
  the pixels the GPU has already written when the host reaches \<^verbatim>\<open>cudaDeviceSynchronize\<close>
  (a kernel launch is asynchronous), and whether each checked CUDA call succeeds.
\<close>

record tick =
  events :: "event list"
  close_requested :: bool
  escape_pressed :: bool
  now :: real
  early :: "nat list"
  cudaDeviceSynchronize_ok :: bool
  cudaGraphicsMapResources_ok :: bool
  cudaGraphicsSubResourceGetMappedArray_ok :: bool
  cudaMemcpy2DToArray_ok :: bool
  cudaGraphicsUnmapResources_ok :: bool

definition glfwPollEvents :: "tick \<Rightarrow> session \<Rightarrow> session" where
  "glfwPollEvents t s =
     (let cs = foldl dispatch (cameraController (renderer s), preset s) (events t)
      in s\<lparr> renderer := (renderer s)\<lparr>cameraController := fst cs\<rparr>,
            preset := snd cs,
            shouldClose := (shouldClose s \<or> close_requested t) \<rparr>)"

text \<open>
  Modelled from the spec: the writes of the kernel behind \<^verbatim>\<open>launchPhotorealisticKernel\<close>
  (\<^verbatim>\<open>cuda_kernels.cu\<close> is not among the sources). By sections 4.5 and 6 of the
  specification the kernel writes one colour into every slot of the width * height
  buffer, each pixel on its own and in no particular order. The colour it computes for
  pixel \<open>i\<close> (in row-major order) from the arguments of the launch is \<open>render args i\<close>, a
  parameter of the model. \<open>write_pixels f idxs buf\<close> is the buffer after the writes of
  the pixels \<open>idxs\<close>; a write beyond the end of the buffer does not happen.
\<close>

definition write_pixels :: "(nat \<Rightarrow> float4) \<Rightarrow> nat list \<Rightarrow> float4 list \<Rightarrow> float4 list" where
  "write_pixels f idxs buf = foldl (\<lambda>b i. if i < length b then b[i := f i] else b) buf idxs"

text \<open>
  The call of \<^verbatim>\<open>launchPhotorealisticKernel\<close> in \<^verbatim>\<open>run\<close>. A kernel launch is asynchronous:
  the call starts the kernel and returns without waiting for it. The arguments are
  appended to the log of launches.
\<close>

definition launchPhotorealisticKernel :: "kernel_args \<Rightarrow> session \<Rightarrow> session" where
  "launchPhotorealisticKernel args s = s\<lparr> in_flight := Some args, launched := launched s @ [args] \<rparr>"

text \<open>
  Modelled from the spec: the progress of the kernel in flight while the host goes on.
  It writes the pixels \<open>idxs\<close>, as far as they are pixels of the width * height image of
  its launch.
\<close>

definition gpu_progress :: "(kernel_args \<Rightarrow> nat \<Rightarrow> float4) \<Rightarrow> nat list \<Rightarrow> session \<Rightarrow> session" where
  "gpu_progress render idxs s =
     (case in_flight s of
        None \<Rightarrow> s
      | Some args \<Rightarrow>
          s\<lparr> renderer := (renderer s)\<lparr> d_output :=
                write_pixels (render args)
                  (filter (\<lambda>i. i < pixel_count (k_width args) (k_height args)) idxs)
                  (d_output (renderer s)) \<rparr> \<rparr>)"

text \<open>
  \<^verbatim>\<open>cudaDeviceSynchronize\<close> of the CUDA runtime blocks until the device has completed all
  work issued before it: when it returns successfully, the kernel in flight has written
  every pixel and is no longer running.
\<close>

definition cudaDeviceSynchronize :: "(kernel_args \<Rightarrow> nat \<Rightarrow> float4) \<Rightarrow> session \<Rightarrow> session" where
  "cudaDeviceSynchronize render s =
     (case in_flight s of
        None \<Rightarrow> s
      | Some args \<Rightarrow>
          (gpu_progress render [0..<pixel_count (k_width args) (k_height args)] s)
            \<lparr> in_flight := None \<rparr>)"

text \<open>
  \<^verbatim>\<open>cudaMemcpy2DToArray\<close> copies \<^verbatim>\<open>height\<close> rows of \<^verbatim>\<open>width\<close> pixels from \<^verbatim>\<open>d_output\<close> into
  the array mapped from the texture, as the buffer is at that moment.
\<close>

definition cudaMemcpy2DToArray :: "session \<Rightarrow> session" where
  "cudaMemcpy2DToArray s =
     s\<lparr> renderer := (renderer s)\<lparr> texture :=
          take (pixel_count (width (renderer s)) (height (renderer s))) (d_output (renderer s)) \<rparr> \<rparr>"

text \<open>Drawing the full-screen quad and \<^verbatim>\<open>glfwSwapBuffers\<close> show the texture.\<close>

definition glfwSwapBuffers :: "session \<Rightarrow> session" where
  "glfwSwapBuffers s = s\<lparr> presented := presented s @ [texture (renderer s)] \<rparr>"

text \<open>
  One iteration of the loop of \<^verbatim>\<open>CudaRenderer::run\<close>, in the order of the source. The
  result is the failure, if a \<^verbatim>\<open>CUDA_CHECK\<close> ends the program, and the state reached. The
  FPS line printed every 60 frames is console output and left out.
\<close>

definition iteration :: "(kernel_args \<Rightarrow> nat \<Rightarrow> float4) \<Rightarrow> real \<Rightarrow> tick \<Rightarrow> session \<Rightarrow> failure option \<times> session" where
  "iteration render startTime t s =
     (let s1 = glfwPollEvents t s;
          s2 = (if escape_pressed t then s1\<lparr>shouldClose := True\<rparr> else s1);
          currentTime = now t;
          time = currentTime - startTime;
          camera = getCamera (cameraController (renderer s2)) (width (renderer s2)) (height (renderer s2));
          s3 = launchPhotorealisticKernel
                 \<lparr> k_camera = camera, k_disk = disk (renderer s2), k_blackHole = blackHole (renderer s2),
                   k_width = width (renderer s2), k_height = height (renderer s2), k_time = time \<rparr> s2;
          s4 = gpu_progress render (early t) s3
      in if \<not> cudaDeviceSynchronize_ok t then (Some Exit1, s4)
         else
           let s5 = cudaDeviceSynchronize render s4
           in if \<not> cudaGraphicsMapResources_ok t then (Some Exit1, s5)
              else if \<not> cudaGraphicsSubResourceGetMappedArray_ok t then (Some Exit1, s5)
              else if \<not> cudaMemcpy2DToArray_ok t then (Some Exit1, s5)
              else
                let s6 = cudaMemcpy2DToArray s5
                in if \<not> cudaGraphicsUnmapResources_ok t then (Some Exit1, s6)
                   else
                     let s7 = glfwSwapBuffers s6
                     in (None, s7\<lparr>frameCount := frameCount s7 + 1\<rparr>))"

text \<open>
  \<^verbatim>\<open>CudaRenderer::run\<close>. The loop runs for as long as the window stays open, which the
  user decides; the model runs it over the answers of the environment for finitely many
  iterations and returns the state reached: after the loop has ended (\<open>Returned\<close>), after
  \<^verbatim>\<open>exit(1)\<close> (\<open>Exited\<close>), or with the loop still running when the answers are used up
  (\<open>Running\<close>). \<open>startTime\<close> is the clock reading taken before the loop.
\<close>

datatype outcome = Returned | Exited | Running

fun run_loop :: "(kernel_args \<Rightarrow> nat \<Rightarrow> float4) \<Rightarrow> real \<Rightarrow> session \<Rightarrow> tick list \<Rightarrow> outcome \<times> session" where
  "run_loop render startTime s [] = (if shouldClose s then Returned else Running, s)"
| "run_loop render startTime s (t # ts) =
     (if shouldClose s then (Returned, s)
      else
        (case iteration render startTime t s of
           (Some f, s') \<Rightarrow> (Exited, s')
         | (None, s') \<Rightarrow> run_loop render startTime s' ts))"

definition run :: "(kernel_args \<Rightarrow> nat \<Rightarrow> float4) \<Rightarrow> real \<Rightarrow> CudaRenderer \<Rightarrow> tick list \<Rightarrow> outcome \<times> session" where
  "run render startTime r ts = run_loop render startTime (start_session r) ts"

text \<open>The complete frame of a kernel launch: every pixel as the kernel computes it.\<close>

definition full_frame :: "(kernel_args \<Rightarrow> nat \<Rightarrow> float4) \<Rightarrow> kernel_args \<Rightarrow> float4 list" where
  "full_frame render args = map (render args) [0..<pixel_count (k_width args) (k_height args)]"

section \<open>Predicates of the claims about the controller\<close>

text \<open>
  The invariant of the controller: the orbit target stays at the origin, the two radius
  limits keep their initial values and the radius lies between them.
\<close>

definition controller_inv :: "CudaCameraController \<times> int \<Rightarrow> bool" where
  "controller_inv s =
     (target (fst s) = Vec3 0 0 0 \<and> minRadius (fst s) = 10 ^ 10 \<and> maxRadius (fst s) = 10 ^ 12 \<and>
      10 ^ 10 \<le> radius (fst s) \<and> radius (fst s) \<le> 10 ^ 12)"

text \<open>The Euclidean length of a vector, and what it is for three vectors to be orthonormal.\<close>

definition vlength :: "vec3 \<Rightarrow> real" where
  "vlength v = sqrt (dot v v)"

definition orthonormal :: "vec3 \<Rightarrow> vec3 \<Rightarrow> vec3 \<Rightarrow> bool" where
  "orthonormal a b c =
     (vlength a = 1 \<and> vlength b = 1 \<and> vlength c = 1 \<and>
      dot a b = 0 \<and> dot a c = 0 \<and> dot b c = 0)"

section \<open>Predicates and examples for the claims about the renderer\<close>

text \<open>
  The invariant of the loop of \<open>run\<close> at the head of an iteration, for a window of
  \<open>w * h\<close> pixels: no kernel is in flight, the buffer has \<open>w * h\<close> slots, and every image
  shown so far is the complete frame of the launch with the same number. \<open>frames_ok\<close> is
  what remains of it when the program stops inside an iteration.
\<close>

definition frame_inv :: "(kernel_args \<Rightarrow> nat \<Rightarrow> float4) \<Rightarrow> session \<Rightarrow> bool" where
  "frame_inv render s =
     (in_flight s = None \<and>
      length (d_output (renderer s)) = pixel_count (width (renderer s)) (height (renderer s)) \<and>
      length (presented s) = length (launched s) \<and>
      list_all2 (\<lambda>img args. img = full_frame render args) (presented s) (launched s))"

definition frames_ok :: "(kernel_args \<Rightarrow> nat \<Rightarrow> float4) \<Rightarrow> session \<Rightarrow> bool" where
  "frames_ok render s =
     list_all2 (\<lambda>img args. img = full_frame render args)
       (presented s) (take (length (presented s)) (launched s))"

text \<open>
  A concrete session for the examples: every library call succeeds, the kernel colours
  pixel \<open>i\<close> with \<open>i\<close> and the time of the frame, and an iteration receives no event, reads
  the clock at \<open>n\<close> seconds and finds pixel 0 already written when it synchronises.
\<close>

definition demo_env :: init_env where
  "demo_env =
     \<lparr> glfwInit_ok = True, glfwCreateWindow_ok = True, glewInit_ok = True,
       gl_texture_ok = True, gl_quad_ok = True, cudaSetDevice_ok = True,
       cudaGraphicsGLRegisterImage_ok = True, cudaMalloc_ok = True,
       cudaGetDeviceProperties_ok = True,
       malloc_contents = (\<lambda>i. Float4 0 0 0 0), texture_contents = (\<lambda>i. Float4 0 0 0 0) \<rparr>"

definition demo_render :: "kernel_args \<Rightarrow> nat \<Rightarrow> float4" where
  "demo_render args i = Float4 (real i) (k_time args) 0 1"

definition demo_tick :: "real \<Rightarrow> tick" where
  "demo_tick n =
     \<lparr> events = [], close_requested = False, escape_pressed = False, now = n, early = [0],
       cudaDeviceSynchronize_ok = True, cudaGraphicsMapResources_ok = True,
       cudaGraphicsSubResourceGetMappedArray_ok = True, cudaMemcpy2DToArray_ok = True,
       cudaGraphicsUnmapResources_ok = True \<rparr>"

section \<open>The Schwarzschild radius of a mass\<close>

text \<open>
  Modelled from the spec: the formula \<open>r_s = 2GM/c\<^sup>2\<close> of the data model, with which the
  configured radius is compared. The sources contain neither \<open>G\<close> nor \<open>c\<close>: \<open>c_light\<close> is
  the speed of light in m/s (exact in the SI), \<open>G_newton\<close> the CODATA 2018 value of the
  gravitational constant in SI units, and \<open>schwarzschild_radius\<close> takes the gravitational
  constant as its first argument.
\<close>

definition c_light :: real where "c_light = 299792458"

definition G_newton :: real where "G_newton = 6.67430 / 10 ^ 11"

definition schwarzschild_radius :: "real \<Rightarrow> real \<Rightarrow> real" where
  "schwarzschild_radius G M = 2 * G * M / c_light\<^sup>2"

section \<open>The per-ray integration of the kernel\<close>

text \<open>
  The geodesic integrator and the termination classifier are part of \<^verbatim>\<open>cuda_kernels.cu\<close>,
  which is not among the sources; the header only declares the kernel launchers and
  defines \<open>ESCAPE_R\<close>, \<open>MAX_RAY_STEPS\<close> and \<open>D_LAMBDA\<close>. The definitions of this section
  follow sections 4.2 and 4.3 of the specification.
\<close>

text \<open>
  Modelled from the spec: the states of the machine that drives the integration loop,
  \<open>{Active, Escaped, Captured, DiskHit, StepLimitReached}\<close>, with Active the only state
  that is not terminal.
\<close>

datatype ray_state = Active | Escaped | Captured | DiskHit | StepLimitReached

text \<open>
  Modelled from the spec: numerical instability, "detected via non-finite
  position/velocity values" (section 7, and 4.2: "NaN/overflow in position"). The
  position of a ray is its Cartesian and its spherical coordinates, the velocity its
  three coordinate derivatives.
\<close>

definition ray_finite :: "CudaRay \<Rightarrow> bool" where
  "ray_finite ray =
     (is_finite (ray_x ray) \<and> is_finite (ray_y ray) \<and> is_finite (ray_z ray) \<and>
      is_finite (ray_r ray) \<and> is_finite (ray_theta ray) \<and> is_finite (ray_phi ray) \<and>
      is_finite (ray_dr ray) \<and> is_finite (ray_dtheta ray) \<and> is_finite (ray_dphi ray))"

text \<open>
  Modelled from the spec: the disk crossing, "the ray's trajectory crosses the disk's
  radial band (inner..outer radius) while theta passes through the disk's equatorial
  plane within the configured thickness". The specification gives no formula for the
  passage through the plane, so that test is the parameter \<open>in_plane\<close>.
\<close>

definition disk_crossing :: "(AccretionDisk \<Rightarrow> CudaRay \<Rightarrow> bool) \<Rightarrow> AccretionDisk \<Rightarrow> CudaRay \<Rightarrow> bool" where
  "disk_crossing in_plane d ray =
     (at_least (ray_r ray) (innerRadius d) \<and> at_most (ray_r ray) (outerRadius d) \<and> in_plane d ray)"

text \<open>
  Modelled from the spec: the termination classifier, a pure function of the current ray
  and the parameters. Numerical instability is "treated as an immediate Escaped
  classification, never propagated", so it is checked first. Then the disk crossing is
  checked, before the escape and capture thresholds; a ray escapes when \<open>r\<close> exceeds the
  escape radius and is captured when \<open>r\<close> is at or below the Schwarzschild radius.
\<close>

definition classify :: "(AccretionDisk \<Rightarrow> CudaRay \<Rightarrow> bool) \<Rightarrow> AccretionDisk \<Rightarrow> BlackHole \<Rightarrow> CudaRay \<Rightarrow> ray_state" where
  "classify in_plane d b ray =
     (if \<not> ray_finite ray then Escaped
      else if disk_crossing in_plane d ray then DiskHit
      else if exceeds (ray_r ray) ESCAPE_R then Escaped
      else if at_most (ray_r ray) (schwarzschildRadius b) then Captured
      else Active)"

text \<open>
  Modelled from the spec: the loop of the integrator. The classifier is consulted at
  every step; a ray in a terminal state stays as it is, an Active ray that has used up
  the step cap becomes StepLimitReached, and any other Active ray is advanced by one step.
  The specification leaves the integration scheme open, so the step, a function of the
  current ray and the step size, is the parameter \<open>step\<close>; it is called with \<open>D_LAMBDA\<close>.
  The result is the terminal state, the number of steps taken and the ray at the end.
\<close>

function integrate :: "(AccretionDisk \<Rightarrow> CudaRay \<Rightarrow> bool) \<Rightarrow> (CudaRay \<Rightarrow> real \<Rightarrow> CudaRay) \<Rightarrow>
    AccretionDisk \<Rightarrow> BlackHole \<Rightarrow> nat \<Rightarrow> CudaRay \<Rightarrow> ray_state \<times> nat \<times> CudaRay" where
  "integrate in_plane step d b n ray =
     (let st = classify in_plane d b ray in
      if st \<noteq> Active then (st, n, ray)
      else if MAX_RAY_STEPS \<le> n then (StepLimitReached, n, ray)
      else integrate in_plane step d b (Suc n) (step ray D_LAMBDA))"
  by pat_completeness auto
termination
  by (relation "measure (\<lambda>(in_plane, step, d, b, n, ray). MAX_RAY_STEPS - n)") auto

text \<open>
  Modelled from the spec: StepLimitReached is treated as Escaped when the outcome of a ray
  is resolved to a colour.
\<close>

fun resolved :: "ray_state \<Rightarrow> ray_state" where
  "resolved StepLimitReached = Escaped"
| "resolved st = st"

text \<open>
  Examples. \<open>outbound_ray\<close> moves radially outwards in the equatorial plane, 9e29 from
  the centre. \<open>radial_step\<close> advances a ray along its radial velocity, \<open>r + dr * dlambda\<close>,
  and \<open>unstable_step\<close> is a step at which the integration breaks down numerically: the
  new position is NaN. \<open>never_in_plane\<close> is a plane test that never fires.
\<close>

definition outbound_ray :: CudaRay where
  "outbound_ray =
     \<lparr> ray_x = Finite (9 * 10 ^ 29), ray_y = Finite 0, ray_z = Finite 0,
       ray_r = Finite (9 * 10 ^ 29), ray_theta = Finite (pi / 2), ray_phi = Finite 0,
       ray_dr = Finite (2 * 10 ^ 23), ray_dtheta = Finite 0, ray_dphi = Finite 0,
       ray_E = Finite 1, ray_L = Finite 0 \<rparr>"

fun f32_advance :: "f32 \<Rightarrow> f32 \<Rightarrow> real \<Rightarrow> f32" where
  "f32_advance (Finite x) (Finite v) dl = Finite (x + v * dl)"
| "f32_advance x v dl = NaN"

definition radial_step :: "CudaRay \<Rightarrow> real \<Rightarrow> CudaRay" where
  "radial_step ray dl =
     ray\<lparr> ray_x := f32_advance (ray_x ray) (ray_dr ray) dl,
          ray_r := f32_advance (ray_r ray) (ray_dr ray) dl \<rparr>"

definition unstable_step :: "CudaRay \<Rightarrow> real \<Rightarrow> CudaRay" where
  "unstable_step ray dl =
     ray\<lparr> ray_x := NaN, ray_y := NaN, ray_z := NaN, ray_r := NaN, ray_theta := NaN, ray_phi := NaN \<rparr>"

definition never_in_plane :: "AccretionDisk \<Rightarrow> CudaRay \<Rightarrow> bool" where
  "never_in_plane d ray = False"

section \<open>Properties of the camera controller\<close>

text \<open>
  C10. When the controller is not dragging, \<open>processMouseMove\<close> returns the controller
  unchanged, whatever the cursor position: azimuth, elevation, radius, lastX, lastY and
  the moving flag (and every other field) keep their values.
\<close>

theorem processMouseMove_not_dragging:
  "\<not> dragging c \<Longrightarrow> processMouseMove x y c = c"
  by (simp add: processMouseMove_def)

theorem processMouseMove_not_dragging_witness:
  "\<not> dragging initial_controller \<and> processMouseMove 3 4 initial_controller = initial_controller"
  using processMouseMove_not_dragging [of initial_controller 3 4]
  by (simp add: initial_controller_def)

subsection \<open>The radius invariant\<close>

lemma clamp_bounds: "lo \<le> hi \<Longrightarrow> lo \<le> clamp v lo hi \<and> clamp v lo hi \<le> hi"
  by (simp add: clamp_def)

lemma processMouseMove_inv: "controller_inv (c, p) \<Longrightarrow> controller_inv (processMouseMove x y c, p)"
  by (simp add: controller_inv_def processMouseMove_def Let_def)

lemma processMouseButton_inv: "controller_inv (c, p) \<Longrightarrow> controller_inv (processMouseButton b a cur c, p)"
  by (simp add: controller_inv_def processMouseButton_def)

lemma processScroll_inv: "controller_inv (c, p) \<Longrightarrow> controller_inv (processScroll xo yo c, p)"
  by (simp add: controller_inv_def processScroll_def Let_def clamp_def)

lemma processKey_inv: "controller_inv s \<Longrightarrow> controller_inv (processKey k sc a m s)"
  by (simp add: controller_inv_def processKey_def Let_def)

lemma dispatch_inv: "controller_inv s \<Longrightarrow> controller_inv (dispatch s e)"
  by (cases e; cases s)
     (simp_all add: processMouseMove_inv processMouseButton_inv processScroll_inv processKey_inv)

lemma foldl_dispatch_inv: "controller_inv s \<Longrightarrow> controller_inv (foldl dispatch s evs)"
  by (induction evs arbitrary: s) (simp_all add: dispatch_inv)

lemma initial_state_inv: "controller_inv initial_state"
  by (simp add: controller_inv_def initial_state_def initial_controller_def)

lemma after_events_inv: "controller_inv (after_events evs)"
  unfolding after_events_def by (rule foldl_dispatch_inv [OF initial_state_inv])

text \<open>
  C9. The orbit radius always stays within \<open>[minRadius, maxRadius] = [1e10, 1e12]\<close>: in
  the state reached from the initial one (radius 6.34194e10) by any sequence of controller
  operations (mouse button, mouse move, scroll zoom, and key presses: camera reset, preset
  cycling, any other key), the two limits have their initial values and the radius lies
  between them.
\<close>

theorem radius_within_bounds:
  "minRadius (fst (after_events evs)) = 10 ^ 10 \<and>
   maxRadius (fst (after_events evs)) = 10 ^ 12 \<and>
   minRadius (fst (after_events evs)) \<le> radius (fst (after_events evs)) \<and>
   radius (fst (after_events evs)) \<le> maxRadius (fst (after_events evs))"
  using after_events_inv [of evs] by (simp add: controller_inv_def)

subsection \<open>The camera basis\<close>

lemma dot_self_nonneg: "0 \<le> dot v v"
  by (simp add: dot_def)

lemma dot_commute: "dot a b = dot b a"
  by (simp add: dot_def mult.commute)

lemma dot_normalize_left: "dot (normalize a) b = dot a b / sqrt (dot a a)"
  by (simp add: dot_def normalize_def add_divide_distrib)

lemma dot_normalize_right: "dot a (normalize b) = dot a b / sqrt (dot b b)"
  by (simp add: dot_def normalize_def add_divide_distrib)

lemma dot_normalize_self:
  assumes "dot v v \<noteq> 0"
  shows "dot (normalize v) (normalize v) = 1"
proof -
  have pos: "0 < dot v v"
    using assms dot_self_nonneg [of v] by simp
  have "dot (normalize v) (normalize v) = dot v v / (sqrt (dot v v) * sqrt (dot v v))"
    by (simp add: dot_normalize_left dot_normalize_right)
  also have "\<dots> = 1"
    using pos by simp
  finally show ?thesis .
qed

lemma dot_cross_fst: "dot (cross a b) a = 0"
  by (simp add: dot_def cross_def algebra_simps)

lemma dot_cross_snd: "dot (cross a b) b = 0"
  by (simp add: dot_def cross_def algebra_simps)

lemma dot_cross_cross: "dot (cross a b) (cross a b) = dot a a * dot b b - dot a b * dot a b"
  by (simp add: dot_def cross_def algebra_simps)

lemma vlength_one_iff: "vlength v = 1 \<longleftrightarrow> dot v v = 1"
  by (simp add: vlength_def)

lemma basis_orthonormal:
  assumes f: "dot f f = 1" and nz: "dot (cross f w) (cross f w) \<noteq> 0"
  shows "orthonormal (normalize (cross f w)) (normalize (cross (normalize (cross f w)) f)) f"
proof -
  define r where "r = normalize (cross f w)"
  define u where "u = normalize (cross r f)"
  have rr: "dot r r = 1"
    unfolding r_def by (rule dot_normalize_self [OF nz])
  have rf: "dot r f = 0"
    unfolding r_def by (simp add: dot_normalize_left dot_cross_fst)
  have cc: "dot (cross r f) (cross r f) = 1"
    by (simp add: dot_cross_cross rr f rf)
  have uu: "dot u u = 1"
    unfolding u_def by (rule dot_normalize_self) (simp add: cc)
  have ur: "dot u r = 0"
    unfolding u_def by (simp add: dot_normalize_left dot_cross_fst)
  have uf: "dot u f = 0"
    unfolding u_def by (simp add: dot_normalize_left dot_cross_snd)
  have "orthonormal r u f"
    using rr uu f rf ur uf by (simp add: orthonormal_def vlength_one_iff dot_commute [of r u])
  then show ?thesis by (simp add: r_def u_def)
qed

lemma clamped_elevation_sin_pos: "0 < sin (clamp e 0.01 (pi - 0.01))"
proof -
  have "0.01 \<le> pi - 0.01" using pi_ge_two by simp
  then have "0.01 \<le> clamp e 0.01 (pi - 0.01) \<and> clamp e 0.01 (pi - 0.01) \<le> pi - 0.01"
    by (rule clamp_bounds)
  then show ?thesis by (intro sin_gt_zero) simp_all
qed

lemma sphere_norm:
  "(R * s * ca)\<^sup>2 + (R * c)\<^sup>2 + (R * s * sa)\<^sup>2 = R\<^sup>2 * (s\<^sup>2 * (ca\<^sup>2 + sa\<^sup>2) + c\<^sup>2)"
  for R :: real
  by (simp add: power2_eq_square algebra_simps)

lemma horizontal_norm:
  "R \<noteq> 0 \<Longrightarrow> (- (R * s * ca) / \<bar>R\<bar>)\<^sup>2 + (- (R * s * sa) / \<bar>R\<bar>)\<^sup>2 = s\<^sup>2 * (ca\<^sup>2 + sa\<^sup>2)"
  for R :: real
  by (simp add: power_divide power_mult_distrib field_simps)

lemma getCamera_orthonormal_inv:
  assumes t: "target c = Vec3 0 0 0" and r: "radius c \<noteq> 0"
  shows "orthonormal (right (getCamera c w h)) (up (getCamera c w h)) (forward (getCamera c w h))"
proof -
  define e where "e = clamp (elevation c) 0.01 (pi - 0.01)"
  define a where "a = azimuth c"
  define pos where "pos = Vec3 (radius c * sin e * cos a) (radius c * cos e) (radius c * sin e * sin a)"
  define v where "v = vsub (target c) pos"
  define f where "f = normalize v"
  have se: "0 < sin e" unfolding e_def by (rule clamped_elevation_sin_pos)
  have "dot v v = (radius c * sin e * cos a)\<^sup>2 + (radius c * cos e)\<^sup>2 + (radius c * sin e * sin a)\<^sup>2"
    by (simp add: v_def pos_def t vsub_def dot_def power2_eq_square)
  also have "\<dots> = (radius c)\<^sup>2 * ((sin e)\<^sup>2 * ((cos a)\<^sup>2 + (sin a)\<^sup>2) + (cos e)\<^sup>2)"
    by (rule sphere_norm)
  also have "\<dots> = (radius c)\<^sup>2 * ((sin e)\<^sup>2 + (cos e)\<^sup>2)"
    by (simp only: sin_cos_squared_add2 mult_1_right)
  also have "\<dots> = (radius c)\<^sup>2"
    by (simp only: sin_cos_squared_add mult_1_right)
  finally have vv: "dot v v = (radius c)\<^sup>2" .
  have vnz: "dot v v \<noteq> 0" using r by (simp add: vv)
  have ff: "dot f f = 1" unfolding f_def by (rule dot_normalize_self [OF vnz])
  have fx: "vx f = - (radius c * sin e * cos a) / \<bar>radius c\<bar>"
    by (simp add: f_def normalize_def vv) (simp add: v_def pos_def t vsub_def)
  have fz: "vz f = - (radius c * sin e * sin a) / \<bar>radius c\<bar>"
    by (simp add: f_def normalize_def vv) (simp add: v_def pos_def t vsub_def)
  have "dot (cross f (Vec3 0 1 0)) (cross f (Vec3 0 1 0)) = (vx f)\<^sup>2 + (vz f)\<^sup>2"
    by (simp add: dot_def cross_def power2_eq_square)
  also have "\<dots> = (sin e)\<^sup>2 * ((cos a)\<^sup>2 + (sin a)\<^sup>2)"
    unfolding fx fz by (rule horizontal_norm [OF r])
  also have "\<dots> = (sin e)\<^sup>2"
    by (simp only: sin_cos_squared_add2 mult_1_right)
  finally have "dot (cross f (Vec3 0 1 0)) (cross f (Vec3 0 1 0)) \<noteq> 0"
    using se by simp
  from basis_orthonormal [OF ff this]
  show ?thesis
    by (simp add: getCamera_def Let_def f_def v_def pos_def e_def a_def)
qed

text \<open>
  C5. In every state the controller can reach and for every image width and height (the
  positive ones in particular), the camera returned by \<open>getCamera\<close> has an orthonormal
  basis: right, up and forward have length 1 over the reals and are pairwise orthogonal.
  The elevation used is clamped to \<open>[0.01, pi - 0.01]\<close>, so its sine is positive and
  forward is never parallel to the world up vector; the radius is at least 1e10, so the
  camera is never at the target.
\<close>

theorem getCamera_orthonormal:
  "orthonormal (right (getCamera (fst (after_events evs)) w h))
               (up (getCamera (fst (after_events evs)) w h))
               (forward (getCamera (fst (after_events evs)) w h))"
proof (rule getCamera_orthonormal_inv)
  show "target (fst (after_events evs)) = Vec3 0 0 0"
    using after_events_inv [of evs] by (simp add: controller_inv_def)
  show "radius (fst (after_events evs)) \<noteq> 0"
    using after_events_inv [of evs] by (simp add: controller_inv_def)
qed

section \<open>Properties of the renderer\<close>

subsection \<open>The device buffer and the invariant of the loop\<close>

lemma write_pixels_length [simp]: "length (write_pixels f idxs buf) = length buf"
  unfolding write_pixels_def by (induction idxs arbitrary: buf) simp_all

lemma write_pixels_snoc:
  "write_pixels f (idxs @ [i]) buf =
     (let b = write_pixels f idxs buf in if i < length b then b[i := f i] else b)"
  by (simp add: write_pixels_def)

lemma write_pixels_nth:
  "i < length buf \<Longrightarrow> write_pixels f idxs buf ! i = (if i \<in> set idxs then f i else buf ! i)"
proof (induction idxs rule: rev_induct)
  case Nil
  then show ?case by (simp add: write_pixels_def)
next
  case (snoc j idxs)
  then show ?case
    by (simp add: write_pixels_snoc Let_def nth_list_update)
qed

lemma write_pixels_all:
  assumes "length buf = n"
  shows "write_pixels f [0..<n] (write_pixels f idxs buf) = map f [0..<n]"
proof (rule nth_equalityI)
  show "length (write_pixels f [0..<n] (write_pixels f idxs buf)) = length (map f [0..<n])"
    using assms by simp
next
  fix i
  assume "i < length (write_pixels f [0..<n] (write_pixels f idxs buf))"
  then have "i < n" using assms by simp
  then show "write_pixels f [0..<n] (write_pixels f idxs buf) ! i = map f [0..<n] ! i"
    using assms by (simp add: write_pixels_nth)
qed

lemma iteration_continue:
  assumes inv: "frame_inv render s" and it: "iteration render st t s = (None, s')"
  shows "frame_inv render s' \<and> width (renderer s') = width (renderer s) \<and> height (renderer s') = height (renderer s)"
  using inv it
  by (auto simp: iteration_def Let_def frame_inv_def glfwPollEvents_def launchPhotorealisticKernel_def
      gpu_progress_def cudaDeviceSynchronize_def cudaMemcpy2DToArray_def glfwSwapBuffers_def
      full_frame_def write_pixels_all list_all2_appendI split: if_splits)

lemma iteration_exit:
  assumes inv: "frame_inv render s" and it: "iteration render st t s = (Some f, s')"
  shows "frames_ok render s'"
  using inv it
  by (auto simp: iteration_def Let_def frame_inv_def frames_ok_def glfwPollEvents_def launchPhotorealisticKernel_def
      gpu_progress_def cudaDeviceSynchronize_def cudaMemcpy2DToArray_def glfwSwapBuffers_def
      split: if_splits)

lemma frame_inv_frames_ok: "frame_inv render s \<Longrightarrow> frames_ok render s"
  by (simp add: frame_inv_def frames_ok_def)

lemma run_loop_frames_ok:
  "frame_inv render s \<Longrightarrow> frames_ok render (snd (run_loop render st s ts))"
proof (induction ts arbitrary: s)
  case Nil
  then show ?case by (simp add: frame_inv_frames_ok)
next
  case (Cons t ts)
  show ?case
  proof (cases "shouldClose s")
    case True
    with Cons.prems show ?thesis by (simp add: frame_inv_frames_ok)
  next
    case False
    obtain res s' where it: "iteration render st t s = (res, s')" by (cases "iteration render st t s")
    show ?thesis
    proof (cases res)
      case None
      with it Cons.prems have "frame_inv render s'" using iteration_continue by blast
      then have "frames_ok render (snd (run_loop render st s' ts))" by (rule Cons.IH)
      with False it None show ?thesis by simp
    next
      case (Some f)
      with it Cons.prems have "frames_ok render s'" using iteration_exit by blast
      with False it Some show ?thesis by simp
    qed
  qed
qed

lemma start_session_frame_inv: "frame_inv render (start_session (configured env w h))"
  by (simp add: frame_inv_def start_session_def configured_def)

lemma CudaRenderer_new_Inr: "CudaRenderer_new env w h = Inr r \<Longrightarrow> r = configured env w h"
  by (auto simp: CudaRenderer_new_def split: option.splits)

subsection \<open>The arguments of the kernel launches\<close>

lemma iteration_launched:
  "\<exists>a. launched (snd (iteration render st t s)) = launched s @ [a] \<and>
       k_time a = now t - st \<and> k_disk a = disk (renderer s) \<and> k_blackHole a = blackHole (renderer s) \<and>
       k_width a = width (renderer s) \<and> k_height a = height (renderer s)"
  by (simp add: iteration_def Let_def glfwPollEvents_def launchPhotorealisticKernel_def
      gpu_progress_def cudaDeviceSynchronize_def cudaMemcpy2DToArray_def glfwSwapBuffers_def)

lemma iteration_params:
  "disk (renderer (snd (iteration render st t s))) = disk (renderer s) \<and>
   blackHole (renderer (snd (iteration render st t s))) = blackHole (renderer s) \<and>
   width (renderer (snd (iteration render st t s))) = width (renderer s) \<and>
   height (renderer (snd (iteration render st t s))) = height (renderer s)"
  by (simp add: iteration_def Let_def glfwPollEvents_def launchPhotorealisticKernel_def
      gpu_progress_def cudaDeviceSynchronize_def cudaMemcpy2DToArray_def glfwSwapBuffers_def)

lemma run_loop_params:
  assumes "\<forall>k \<in> set (launched s). k_disk k = d \<and> k_blackHole k = b \<and> k_width k = w \<and> k_height k = h"
    and "disk (renderer s) = d" and "blackHole (renderer s) = b"
    and "width (renderer s) = w" and "height (renderer s) = h"
  shows "\<forall>k \<in> set (launched (snd (run_loop render st s ts))).
           k_disk k = d \<and> k_blackHole k = b \<and> k_width k = w \<and> k_height k = h"
  using assms
proof (induction ts arbitrary: s)
  case Nil
  then show ?case by simp
next
  case (Cons t ts)
  show ?case
  proof (cases "shouldClose s")
    case True
    with Cons.prems show ?thesis by simp
  next
    case False
    obtain res s' where it: "iteration render st t s = (res, s')" by (cases "iteration render st t s")
    from iteration_launched [of render st t s] it obtain a where
      a: "launched s' = launched s @ [a]" "k_disk a = disk (renderer s)" "k_blackHole a = blackHole (renderer s)"
         "k_width a = width (renderer s)" "k_height a = height (renderer s)"
      by auto
    from iteration_params [of render st t s] it
    have p: "disk (renderer s') = d" "blackHole (renderer s') = b"
            "width (renderer s') = w" "height (renderer s') = h"
      using Cons.prems by simp_all
    have l: "\<forall>k \<in> set (launched s'). k_disk k = d \<and> k_blackHole k = b \<and> k_width k = w \<and> k_height k = h"
      using a Cons.prems by auto
    show ?thesis
    proof (cases res)
      case None
      have "\<forall>k \<in> set (launched (snd (run_loop render st s' ts))).
              k_disk k = d \<and> k_blackHole k = b \<and> k_width k = w \<and> k_height k = h"
        using l p by (rule Cons.IH)
      with False it None show ?thesis by simp
    next
      case (Some f)
      with False it l show ?thesis by simp
    qed
  qed
qed

lemma run_params:
  assumes "k \<in> set (launched (snd (run render st r ts)))"
  shows "k_disk k = disk r \<and> k_blackHole k = blackHole r \<and> k_width k = width r \<and> k_height k = height r"
proof -
  have "\<forall>k \<in> set (launched (snd (run_loop render st (start_session r) ts))).
          k_disk k = disk r \<and> k_blackHole k = blackHole r \<and> k_width k = width r \<and> k_height k = height r"
    by (rule run_loop_params) (simp_all add: start_session_def)
  with assms show ?thesis by (simp add: run_def)
qed

lemma run_loop_times:
  assumes "sorted (map k_time (launched s))"
    and "\<forall>k \<in> set (launched s). \<forall>t \<in> set ts. k_time k \<le> now t - st"
    and "sorted (map now ts)"
  shows "sorted (map k_time (launched (snd (run_loop render st s ts))))"
  using assms
proof (induction ts arbitrary: s)
  case Nil
  then show ?case by simp
next
  case (Cons t ts)
  show ?case
  proof (cases "shouldClose s")
    case True
    with Cons.prems show ?thesis by simp
  next
    case False
    obtain res s' where it: "iteration render st t s = (res, s')" by (cases "iteration render st t s")
    from iteration_launched [of render st t s] it obtain a where
      a: "launched s' = launched s @ [a]" "k_time a = now t - st"
      by auto
    have srt: "sorted (map k_time (launched s'))"
      using Cons.prems(1,2) a by (simp add: sorted_append)
    have later: "\<forall>k \<in> set (launched s'). \<forall>u \<in> set ts. k_time k \<le> now u - st"
      using Cons.prems(2,3) a by auto
    have rest: "sorted (map now ts)"
      using Cons.prems(3) by simp
    show ?thesis
    proof (cases res)
      case None
      have "sorted (map k_time (launched (snd (run_loop render st s' ts))))"
        using srt later rest by (rule Cons.IH)
      with False it None show ?thesis by simp
    next
      case (Some f)
      with False it srt show ?thesis by simp
    qed
  qed
qed

subsection \<open>The example session\<close>

lemma demo_new: "CudaRenderer_new demo_env w h = Inr (configured demo_env w h)"
  by (simp add: CudaRenderer_new_def initOpenGL_def initCUDA_def demo_env_def)

lemma demo_iteration_launched:
  "launched (snd (iteration render st (demo_tick n) s)) =
     launched s @ [\<lparr> k_camera = getCamera (cameraController (renderer s)) (width (renderer s)) (height (renderer s)),
                     k_disk = disk (renderer s), k_blackHole = blackHole (renderer s),
                     k_width = width (renderer s), k_height = height (renderer s), k_time = n - st \<rparr>]"
  by (simp add: iteration_def Let_def glfwPollEvents_def launchPhotorealisticKernel_def
      gpu_progress_def cudaDeviceSynchronize_def cudaMemcpy2DToArray_def glfwSwapBuffers_def demo_tick_def)

lemma demo_iteration_ok: "fst (iteration render st (demo_tick n) s) = None"
  by (simp add: iteration_def Let_def demo_tick_def)

lemma demo_iteration_open: "shouldClose (snd (iteration render st (demo_tick n) s)) = shouldClose s"
  by (simp add: iteration_def Let_def glfwPollEvents_def launchPhotorealisticKernel_def
      gpu_progress_def cudaDeviceSynchronize_def cudaMemcpy2DToArray_def glfwSwapBuffers_def demo_tick_def
      split: option.splits)

lemma demo_run_one:
  "\<not> shouldClose s \<Longrightarrow> run_loop render st s (demo_tick n # ts) = run_loop render st (snd (iteration render st (demo_tick n) s)) ts"
  using demo_iteration_ok [of render st n s]
  by (cases "iteration render st (demo_tick n) s") (simp split: option.splits)

lemma run_loop_Nil_snd: "snd (run_loop render st s []) = s"
  by simp

lemma demo_times:
  "map k_time (launched (snd (run render 0 r [demo_tick a, demo_tick b]))) = [a, b]"
  by (simp add: run_def demo_run_one demo_iteration_open demo_iteration_launched start_session_def
      run_loop_Nil_snd del: run_loop.simps)

lemma demo_launched_one:
  "launched (snd (run render st r [demo_tick n])) =
     [\<lparr> k_camera = getCamera (cameraController r) (width r) (height r),
        k_disk = disk r, k_blackHole = blackHole r,
        k_width = width r, k_height = height r, k_time = n - st \<rparr>]"
  by (simp add: run_def demo_run_one demo_iteration_open demo_iteration_launched start_session_def
      run_loop_Nil_snd del: run_loop.simps)

lemma demo_presented_length:
  "length (presented (snd (iteration render st (demo_tick n) s))) = length (presented s) + 1"
  by (simp add: iteration_def Let_def glfwPollEvents_def launchPhotorealisticKernel_def
      gpu_progress_def cudaDeviceSynchronize_def cudaMemcpy2DToArray_def glfwSwapBuffers_def demo_tick_def)

lemma demo_presented_one:
  "length (presented (snd (run render st r [demo_tick n]))) = 1"
  by (simp add: run_def demo_run_one demo_iteration_open demo_presented_length start_session_def
      run_loop_Nil_snd del: run_loop.simps)

subsection \<open>Session parameters\<close>

text \<open>
  C6. The black-hole and disk parameters are set once, by the constructor, and never
  modified: in every session whose construction succeeds, every kernel launch of the run
  loop receives the disk and the black hole of the constructed renderer, which are the
  values the constructor assigns.
\<close>

theorem params_fixed_for_session:
  assumes "CudaRenderer_new env w h = Inr r"
    and "k \<in> set (launched (snd (run render startTime r ts)))"
  shows "k_disk k = disk r \<and> k_blackHole k = blackHole r \<and>
         disk r = \<lparr> innerRadius = SAGA_RS * 3.0, outerRadius = SAGA_RS * 20.0,
                    thickness = SAGA_RS * 0.1, temperature = 50000.0 \<rparr> \<and>
         blackHole r = \<lparr> bh_position = Vec3 0 0 0, mass = 8.54 * 10 ^ 36,
                         schwarzschildRadius = SAGA_RS \<rparr>"
  using run_params [OF assms(2)] CudaRenderer_new_Inr [OF assms(1)]
  by (simp add: configured_def)

theorem params_fixed_for_session_witness:
  "CudaRenderer_new demo_env 2 1 = Inr (configured demo_env 2 1) \<and>
   hd (launched (snd (run demo_render 0 (configured demo_env 2 1) [demo_tick 1])))
     \<in> set (launched (snd (run demo_render 0 (configured demo_env 2 1) [demo_tick 1]))) \<and>
   k_disk (hd (launched (snd (run demo_render 0 (configured demo_env 2 1) [demo_tick 1])))) =
     \<lparr> innerRadius = SAGA_RS * 3.0, outerRadius = SAGA_RS * 20.0,
       thickness = SAGA_RS * 0.1, temperature = 50000.0 \<rparr> \<and>
   k_blackHole (hd (launched (snd (run demo_render 0 (configured demo_env 2 1) [demo_tick 1])))) =
     \<lparr> bh_position = Vec3 0 0 0, mass = 8.54 * 10 ^ 36, schwarzschildRadius = SAGA_RS \<rparr>"
proof -
  have h1: "CudaRenderer_new demo_env 2 1 = Inr (configured demo_env 2 1)"
    by (rule demo_new)
  have h2: "hd (launched (snd (run demo_render 0 (configured demo_env 2 1) [demo_tick 1])))
     \<in> set (launched (snd (run demo_render 0 (configured demo_env 2 1) [demo_tick 1])))"
    by (simp add: demo_launched_one)
  from params_fixed_for_session [OF h1 h2] h1 h2 show ?thesis by simp
qed

text \<open>
  C2. Every session that renders a frame does so with valid parameters: the disk and the
  black hole passed to any kernel launch satisfy innerRadius < outerRadius and mass > 0.
  The constructor takes only the window size; the parameters are the constants it
  assigns, so no session is ever configured with an invalid disk or mass.
\<close>

theorem rendered_params_valid:
  assumes "CudaRenderer_new env w h = Inr r"
    and "k \<in> set (launched (snd (run render startTime r ts)))"
  shows "innerRadius (k_disk k) < outerRadius (k_disk k) \<and> 0 < mass (k_blackHole k)"
  using run_params [OF assms(2)] CudaRenderer_new_Inr [OF assms(1)]
  by (simp add: configured_def SAGA_RS_def)

theorem rendered_params_valid_witness:
  "CudaRenderer_new demo_env 2 1 = Inr (configured demo_env 2 1) \<and>
   hd (launched (snd (run demo_render 0 (configured demo_env 2 1) [demo_tick 1])))
     \<in> set (launched (snd (run demo_render 0 (configured demo_env 2 1) [demo_tick 1]))) \<and>
   innerRadius (k_disk (hd (launched (snd (run demo_render 0 (configured demo_env 2 1) [demo_tick 1])))))
     < outerRadius (k_disk (hd (launched (snd (run demo_render 0 (configured demo_env 2 1) [demo_tick 1]))))) \<and>
   0 < mass (k_blackHole (hd (launched (snd (run demo_render 0 (configured demo_env 2 1) [demo_tick 1])))))"
proof -
  have h1: "CudaRenderer_new demo_env 2 1 = Inr (configured demo_env 2 1)"
    by (rule demo_new)
  have h2: "hd (launched (snd (run demo_render 0 (configured demo_env 2 1) [demo_tick 1])))
     \<in> set (launched (snd (run demo_render 0 (configured demo_env 2 1) [demo_tick 1])))"
    by (simp add: demo_launched_one)
  from rendered_params_valid [OF h1 h2] h1 h2 show ?thesis by simp
qed

subsection \<open>The hand-off of a frame\<close>

text \<open>
  C7. For every frame N that reaches the display, the image handed over (copied into the
  texture and shown by the buffer swap) is the complete frame of the N-th kernel launch:
  all width * height pixels as that kernel computes them, whichever pixels the GPU had
  written when the host reached the synchronisation. The checked
  \<^verbatim>\<open>cudaDeviceSynchronize\<close> stands between the launch and the copy, and a failing
  synchronisation ends the program before any copy.
\<close>

theorem frame_complete_before_handoff:
  assumes "CudaRenderer_new env w h = Inr r"
    and "i < length (presented (snd (run render startTime r ts)))"
  shows "i < length (launched (snd (run render startTime r ts))) \<and>
         presented (snd (run render startTime r ts)) ! i =
           full_frame render (launched (snd (run render startTime r ts)) ! i) \<and>
         length (presented (snd (run render startTime r ts)) ! i) = pixel_count w h"
proof -
  have r: "r = configured env w h" using assms(1) by (rule CudaRenderer_new_Inr)
  have "frames_ok render (snd (run render startTime r ts))"
    unfolding run_def r by (rule run_loop_frames_ok [OF start_session_frame_inv])
  then have l: "list_all2 (\<lambda>img args. img = full_frame render args)
       (presented (snd (run render startTime r ts)))
       (take (length (presented (snd (run render startTime r ts)))) (launched (snd (run render startTime r ts))))"
    by (simp add: frames_ok_def)
  from list_all2_lengthD [OF l] assms(2)
  have i: "i < length (launched (snd (run render startTime r ts)))" by simp
  from list_all2_nthD [OF l assms(2)] assms(2)
  have img: "presented (snd (run render startTime r ts)) ! i =
           full_frame render (launched (snd (run render startTime r ts)) ! i)"
    by simp
  have "launched (snd (run render startTime r ts)) ! i \<in> set (launched (snd (run render startTime r ts)))"
    using i by simp
  from run_params [OF this]
  have "length (full_frame render (launched (snd (run render startTime r ts)) ! i)) = pixel_count w h"
    by (simp add: full_frame_def r configured_def)
  with i img show ?thesis by simp
qed

theorem frame_complete_before_handoff_witness:
  "CudaRenderer_new demo_env 2 1 = Inr (configured demo_env 2 1) \<and>
   0 < length (presented (snd (run demo_render 0 (configured demo_env 2 1) [demo_tick 1]))) \<and>
   presented (snd (run demo_render 0 (configured demo_env 2 1) [demo_tick 1])) ! 0 =
     full_frame demo_render (launched (snd (run demo_render 0 (configured demo_env 2 1) [demo_tick 1])) ! 0) \<and>
   presented (snd (run demo_render 0 (configured demo_env 2 1) [demo_tick 1])) ! 0 =
     [Float4 0 1 0 1, Float4 1 1 0 1]"
proof -
  have h1: "CudaRenderer_new demo_env 2 1 = Inr (configured demo_env 2 1)"
    by (rule demo_new)
  have h2: "0 < length (presented (snd (run demo_render 0 (configured demo_env 2 1) [demo_tick 1])))"
    by (simp add: demo_presented_one)
  have two: "[0..<2] = [0, 1]"
    by (simp add: upt_rec)
  have img: "full_frame demo_render (launched (snd (run demo_render 0 (configured demo_env 2 1) [demo_tick 1])) ! 0) =
      [Float4 0 1 0 1, Float4 1 1 0 1]"
    by (simp add: demo_launched_one full_frame_def pixel_count_def configured_def demo_render_def two)
  from frame_complete_before_handoff [OF h1 h2] h1 h2 img show ?thesis by simp
qed

subsection \<open>The time argument\<close>

text \<open>
  C8, as stated, fails: the time argument is the clock reading minus the start reading,
  and \<^verbatim>\<open>std::chrono::high_resolution_clock\<close> is not required to be steady. When the
  clock reads 2 s in one iteration and 1 s in the next, the two launches receive the times
  2 and 1.
\<close>

theorem time_not_monotone_counterexample:
  "map k_time (launched (snd (run demo_render 0 (configured demo_env 1 1) [demo_tick 2, demo_tick 1]))) = [2, 1] \<and>
   \<not> sorted (map k_time (launched (snd (run demo_render 0 (configured demo_env 1 1) [demo_tick 2, demo_tick 1]))))"
  by (simp add: demo_times)

text \<open>
  C8, amended. If the clock readings of successive iterations do not decrease, the time
  arguments of successive kernel launches do not decrease.
\<close>

theorem time_monotone_if_clock_steady:
  assumes "sorted (map now ts)"
  shows "sorted (map k_time (launched (snd (run render startTime r ts))))"
  unfolding run_def
  by (rule run_loop_times) (simp_all add: start_session_def assms)

theorem time_monotone_if_clock_steady_witness:
  "sorted (map now [demo_tick 1, demo_tick 2]) \<and>
   map k_time (launched (snd (run demo_render 0 (configured demo_env 1 1) [demo_tick 1, demo_tick 2]))) = [1, 2] \<and>
   sorted (map k_time (launched (snd (run demo_render 0 (configured demo_env 1 1) [demo_tick 1, demo_tick 2]))))"
proof -
  have h: "sorted (map now [demo_tick 1, demo_tick 2])"
    by (simp add: demo_tick_def)
  from time_monotone_if_clock_steady [OF h, of demo_render 0 "configured demo_env 1 1"] h
  show ?thesis by (simp add: demo_times)
qed

section \<open>The configured Schwarzschild radius\<close>

text \<open>
  C3, as stated, fails: the configured radius does not equal \<open>2GM/c\<^sup>2\<close> for the
  configured mass up to float precision. A binary32 value carries 24 significant bits, a
  relative precision of about 1.2e-7; the two values differ by more than one part in a
  million.
\<close>

theorem saga_rs_not_float_equal_counterexample:
  "\<not> \<bar>schwarzschildRadius (blackHole (configured demo_env 1200 900))
       - schwarzschild_radius G_newton (mass (blackHole (configured demo_env 1200 900)))\<bar>
     \<le> schwarzschild_radius G_newton (mass (blackHole (configured demo_env 1200 900))) / 10 ^ 6"
  by (simp add: configured_def SAGA_RS_def schwarzschild_radius_def G_newton_def c_light_def)

text \<open>
  C3, amended. The constructor does not compute the Schwarzschild radius from the mass: it
  assigns the constant \<open>SAGA_RS = 1.269e10\<close> and the mass 8.54e36 independently. The
  constant approximates \<open>2GM/c\<^sup>2\<close> for that mass (about 1.26839e10) with a relative
  error between 0.04 % and 0.05 %.
\<close>

theorem saga_rs_approximates_schwarzschild_radius:
  "schwarzschildRadius (blackHole (configured env w h)) = SAGA_RS \<and>
   SAGA_RS = 1.269 * 10 ^ 10 \<and>
   mass (blackHole (configured env w h)) = 8.54 * 10 ^ 36 \<and>
   \<bar>SAGA_RS - schwarzschild_radius G_newton (mass (blackHole (configured env w h)))\<bar>
     \<le> 5 / 10 ^ 4 * schwarzschild_radius G_newton (mass (blackHole (configured env w h))) \<and>
   4 / 10 ^ 4 * schwarzschild_radius G_newton (mass (blackHole (configured env w h)))
     < \<bar>SAGA_RS - schwarzschild_radius G_newton (mass (blackHole (configured env w h)))\<bar>"
  by (simp add: configured_def SAGA_RS_def schwarzschild_radius_def G_newton_def c_light_def)

text \<open>
  The deviation does not depend on the choice of \<open>G\<close>: it exceeds 0.03 % for every
  value between 6.673e-11 and 6.675e-11, which covers the CODATA recommendations since
  1998.
\<close>

lemma saga_rs_any_codata_G:
  assumes "6.673 / 10 ^ 11 \<le> G" and "G \<le> 6.675 / 10 ^ 11"
  shows "3 / 10 ^ 4 * schwarzschild_radius G (8.54 * 10 ^ 36)
           < SAGA_RS - schwarzschild_radius G (8.54 * 10 ^ 36)"
  using assms
  by (simp add: SAGA_RS_def schwarzschild_radius_def c_light_def field_simps)

section \<open>Properties of the per-ray integration\<close>

declare integrate.simps [simp del]

lemma integrate_terminal:
  "n \<le> MAX_RAY_STEPS \<Longrightarrow>
   fst (integrate in_plane step d b n ray) \<noteq> Active \<and>
   n \<le> fst (snd (integrate in_plane step d b n ray)) \<and>
   fst (snd (integrate in_plane step d b n ray)) \<le> MAX_RAY_STEPS"
proof (induction in_plane step d b n ray rule: integrate.induct)
  case (1 in_plane step d b n ray)
  show ?case
  proof (cases "classify in_plane d b ray = Active")
    case False
    then show ?thesis using "1.prems" by (subst (1 2 3) integrate.simps) simp
  next
    case True
    show ?thesis
    proof (cases "MAX_RAY_STEPS \<le> n")
      case True
      with \<open>classify in_plane d b ray = Active\<close> "1.prems" show ?thesis
        by (subst (1 2 3) integrate.simps) simp
    next
      case False
      then have "Suc n \<le> MAX_RAY_STEPS" by simp
      with "1.IH" [OF refl _ False] \<open>classify in_plane d b ray = Active\<close>
      have "fst (integrate in_plane step d b (Suc n) (step ray D_LAMBDA)) \<noteq> Active \<and>
            Suc n \<le> fst (snd (integrate in_plane step d b (Suc n) (step ray D_LAMBDA))) \<and>
            fst (snd (integrate in_plane step d b (Suc n) (step ray D_LAMBDA))) \<le> MAX_RAY_STEPS"
        by simp
      with False \<open>classify in_plane d b ray = Active\<close> show ?thesis
        by (subst (1 2 3) integrate.simps) simp
    qed
  qed
qed

lemma resolved_cases: "st \<noteq> Active \<Longrightarrow> resolved st \<in> {Escaped, Captured, DiskHit}"
  by (cases st) simp_all

text \<open>
  C1. For every ray, whatever the integration step and the plane test, the integration
  ends after at most \<open>MAX_RAY_STEPS = 100000\<close> steps in one of the terminal states Escaped,
  Captured, DiskHit or StepLimitReached, the last being treated as Escaped. \<open>integrate\<close>
  is a total function, its recursion bounded by the step cap: no ray loops forever.
\<close>

theorem integration_terminates_within_cap:
  "fst (integrate in_plane step d b 0 ray) \<in> {Escaped, Captured, DiskHit, StepLimitReached} \<and>
   resolved (fst (integrate in_plane step d b 0 ray)) \<in> {Escaped, Captured, DiskHit} \<and>
   fst (snd (integrate in_plane step d b 0 ray)) \<le> MAX_RAY_STEPS \<and>
   MAX_RAY_STEPS = 100000"
proof -
  have t: "fst (integrate in_plane step d b 0 ray) \<noteq> Active \<and>
           fst (snd (integrate in_plane step d b 0 ray)) \<le> MAX_RAY_STEPS"
    using integrate_terminal [of 0 in_plane step d b ray] by simp
  then have "fst (integrate in_plane step d b 0 ray) \<in> {Escaped, Captured, DiskHit, StepLimitReached}"
    by (cases "fst (integrate in_plane step d b 0 ray)") simp_all
  moreover have "resolved (fst (integrate in_plane step d b 0 ray)) \<in> {Escaped, Captured, DiskHit}"
    using t by (intro resolved_cases) simp
  moreover have "MAX_RAY_STEPS = 100000"
    by (simp add: MAX_RAY_STEPS_def)
  ultimately show ?thesis using t by blast
qed

text \<open>
  A ray that stays Active at every step uses the whole budget and ends as
  StepLimitReached after exactly \<open>MAX_RAY_STEPS\<close> steps.
\<close>

lemma funpow_shift: "(f ^^ Suc k) x = (f ^^ k) (f x)"
  by (simp only: funpow_Suc_right o_apply)

lemma integrate_step_limit:
  assumes "\<forall>k. classify in_plane d b (((\<lambda>r. step r D_LAMBDA) ^^ k) ray) = Active"
    and "n \<le> MAX_RAY_STEPS"
  shows "integrate in_plane step d b n ray =
           (StepLimitReached, MAX_RAY_STEPS, ((\<lambda>r. step r D_LAMBDA) ^^ (MAX_RAY_STEPS - n)) ray)"
  using assms
proof (induction in_plane step d b n ray rule: integrate.induct)
  case (1 in_plane step d b n ray)
  have act: "classify in_plane d b ray = Active"
    using "1.prems"(1) [rule_format, of 0] by simp
  show ?case
  proof (cases "MAX_RAY_STEPS \<le> n")
    case True
    with "1.prems"(2) have "n = MAX_RAY_STEPS" by simp
    with act show ?thesis by (subst integrate.simps) simp
  next
    case False
    have nxt: "\<forall>k. classify in_plane d b (((\<lambda>r. step r D_LAMBDA) ^^ k) (step ray D_LAMBDA)) = Active"
    proof
      fix k
      show "classify in_plane d b (((\<lambda>r. step r D_LAMBDA) ^^ k) (step ray D_LAMBDA)) = Active"
        using "1.prems"(1) [rule_format, of "Suc k"] by (simp only: funpow_shift)
    qed
    from False have le: "Suc n \<le> MAX_RAY_STEPS" by simp
    have "integrate in_plane step d b (Suc n) (step ray D_LAMBDA) =
            (StepLimitReached, MAX_RAY_STEPS,
             ((\<lambda>r. step r D_LAMBDA) ^^ (MAX_RAY_STEPS - Suc n)) (step ray D_LAMBDA))"
      using "1.IH" [OF refl _ False nxt le] act by simp
    moreover have "((\<lambda>r. step r D_LAMBDA) ^^ (MAX_RAY_STEPS - Suc n)) (step ray D_LAMBDA) =
                   ((\<lambda>r. step r D_LAMBDA) ^^ (MAX_RAY_STEPS - n)) ray"
    proof -
      have e: "MAX_RAY_STEPS - n = Suc (MAX_RAY_STEPS - Suc n)" using le by simp
      show ?thesis by (simp only: e funpow_shift)
    qed
    ultimately show ?thesis using False act
      by (subst integrate.simps) simp
  qed
qed

subsection \<open>The transition to Escaped\<close>

lemma session_disk_below_escape: "outerRadius (disk (configured env w h)) < ESCAPE_R"
  by (simp add: configured_def SAGA_RS_def ESCAPE_R_def)

lemma at_most_not_exceeds: "at_most v c \<Longrightarrow> c < c' \<Longrightarrow> \<not> exceeds v c'"
  by (cases v) simp_all

lemma classify_session_Escaped:
  "(classify in_plane (disk (configured env w h)) (blackHole (configured env w h)) ray = Escaped)
     = (\<not> ray_finite ray \<or> exceeds (ray_r ray) ESCAPE_R)"
proof (cases "ray_finite ray")
  case False
  then show ?thesis by (simp add: classify_def)
next
  case True
  show ?thesis
  proof (cases "disk_crossing in_plane (disk (configured env w h)) ray")
    case True
    then have "at_most (ray_r ray) (outerRadius (disk (configured env w h)))"
      by (simp add: disk_crossing_def)
    then have "\<not> exceeds (ray_r ray) ESCAPE_R"
      using session_disk_below_escape by (rule at_most_not_exceeds)
    with True \<open>ray_finite ray\<close> show ?thesis by (simp add: classify_def)
  next
    case False
    with \<open>ray_finite ray\<close> show ?thesis by (simp add: classify_def)
  qed
qed

lemma integrate_stops:
  "classify in_plane d b ray \<noteq> Active \<Longrightarrow>
   integrate in_plane step d b n ray = (classify in_plane d b ray, n, ray)"
  by (subst integrate.simps) simp

lemma integrate_advances:
  "classify in_plane d b ray = Active \<Longrightarrow> n < MAX_RAY_STEPS \<Longrightarrow>
   integrate in_plane step d b n ray = integrate in_plane step d b (Suc n) (step ray D_LAMBDA)"
  by (subst integrate.simps) simp

lemma integrate_steps_ge: "n \<le> fst (snd (integrate in_plane step d b n ray))"
proof (induction in_plane step d b n ray rule: integrate.induct)
  case (1 in_plane step d b n ray)
  show ?case
  proof (cases "classify in_plane d b ray = Active \<and> n < MAX_RAY_STEPS")
    case True
    with "1.IH" [OF refl] have "Suc n \<le> fst (snd (integrate in_plane step d b (Suc n) (step ray D_LAMBDA)))"
      by simp
    with True show ?thesis by (simp add: integrate_advances)
  next
    case False
    then show ?thesis by (subst integrate.simps) (auto simp: Let_def)
  qed
qed

lemma integrate_Active_not_here:
  assumes "classify in_plane d b ray = Active"
  shows "integrate in_plane step d b n ray \<noteq> (Escaped, n, ray)"
proof (cases "n < MAX_RAY_STEPS")
  case True
  have "Suc n \<le> fst (snd (integrate in_plane step d b (Suc n) (step ray D_LAMBDA)))"
    by (rule integrate_steps_ge)
  then have "fst (snd (integrate in_plane step d b n ray)) \<noteq> n"
    using assms True by (simp add: integrate_advances)
  then show ?thesis by auto
next
  case False
  with assms show ?thesis by (subst integrate.simps) simp
qed

lemma outbound_Active:
  "classify never_in_plane (disk (configured env w h)) (blackHole (configured env w h)) outbound_ray = Active"
  by (simp add: classify_def ray_finite_def disk_crossing_def never_in_plane_def outbound_ray_def
      ESCAPE_R_def configured_def SAGA_RS_def)

lemma outbound_radial_step:
  "ray_r (radial_step outbound_ray D_LAMBDA) = Finite (2.9 * 10 ^ 30) \<and> ray_finite (radial_step outbound_ray D_LAMBDA)"
  by (simp add: radial_step_def outbound_ray_def D_LAMBDA_def ray_finite_def)

text \<open>
  C4, as stated, fails: an Active ray can become Escaped although its radial coordinate
  does not exceed the escape radius. When a step of the integration breaks down
  numerically, the new position is NaN; the classifier treats the ray as Escaped at once,
  and NaN does not exceed 1e30.
\<close>

theorem escaped_without_exceeding_counterexample:
  "classify never_in_plane (disk (configured demo_env 1200 900)) (blackHole (configured demo_env 1200 900))
     outbound_ray = Active \<and>
   integrate never_in_plane unstable_step (disk (configured demo_env 1200 900)) (blackHole (configured demo_env 1200 900))
     0 outbound_ray = (Escaped, 1, unstable_step outbound_ray D_LAMBDA) \<and>
   ray_r (unstable_step outbound_ray D_LAMBDA) = NaN \<and>
   \<not> exceeds (ray_r (unstable_step outbound_ray D_LAMBDA)) ESCAPE_R"
proof -
  have a: "classify never_in_plane (disk (configured demo_env 1200 900)) (blackHole (configured demo_env 1200 900))
     outbound_ray = Active"
    by (rule outbound_Active)
  have n: "ray_r (unstable_step outbound_ray D_LAMBDA) = NaN"
    by (simp add: unstable_step_def)
  have c: "classify never_in_plane (disk (configured demo_env 1200 900)) (blackHole (configured demo_env 1200 900))
     (unstable_step outbound_ray D_LAMBDA) = Escaped"
    by (simp add: classify_def ray_finite_def unstable_step_def)
  have "integrate never_in_plane unstable_step (disk (configured demo_env 1200 900)) (blackHole (configured demo_env 1200 900))
     0 outbound_ray =
     integrate never_in_plane unstable_step (disk (configured demo_env 1200 900)) (blackHole (configured demo_env 1200 900))
     (Suc 0) (unstable_step outbound_ray D_LAMBDA)"
    using a by (rule integrate_advances) (simp add: MAX_RAY_STEPS_def)
  also have "\<dots> = (Escaped, 1, unstable_step outbound_ray D_LAMBDA)"
    using c by (simp add: integrate_stops)
  finally show ?thesis using a n by simp
qed

text \<open>
  C4, amended. With the disk and the black hole of the session, an Active ray that has
  not used up the step cap becomes Escaped at its next step exactly when, after that step,
  its position or velocity is not finite or its radial coordinate exceeds the escape
  radius \<open>ESCAPE_R = 1e30\<close>. In general the classifier puts a ray in the state Escaped
  exactly under that condition, and the classification is final: the integration of a ray
  classified Escaped stops at once, with the step count and the ray unchanged.
  (StepLimitReached is a terminal state of its own, which only resolves to the colour of
  Escaped.)
\<close>

theorem escaped_iff_nonfinite_or_beyond_escape_radius:
  assumes "classify in_plane (disk (configured env w h)) (blackHole (configured env w h)) ray = Active"
    and "n < MAX_RAY_STEPS"
  shows "ESCAPE_R = 10 ^ 30 \<and>
    ((integrate in_plane step (disk (configured env w h)) (blackHole (configured env w h)) n ray
        = (Escaped, Suc n, step ray D_LAMBDA))
      = (\<not> ray_finite (step ray D_LAMBDA) \<or> exceeds (ray_r (step ray D_LAMBDA)) ESCAPE_R)) \<and>
    ((classify in_plane (disk (configured env w h)) (blackHole (configured env w h)) ray' = Escaped)
      = (\<not> ray_finite ray' \<or> exceeds (ray_r ray') ESCAPE_R)) \<and>
    (classify in_plane (disk (configured env w h)) (blackHole (configured env w h)) ray' = Escaped \<longrightarrow>
       integrate in_plane step (disk (configured env w h)) (blackHole (configured env w h)) m ray'
         = (Escaped, m, ray'))"
proof -
  let ?D = "disk (configured env w h)" and ?B = "blackHole (configured env w h)"
  let ?next = "step ray D_LAMBDA"
  have adv: "integrate in_plane step ?D ?B n ray = integrate in_plane step ?D ?B (Suc n) ?next"
    using assms by (rule integrate_advances)
  have "(integrate in_plane step ?D ?B (Suc n) ?next = (Escaped, Suc n, ?next))
          = (classify in_plane ?D ?B ?next = Escaped)"
  proof (cases "classify in_plane ?D ?B ?next = Active")
    case True
    then show ?thesis using integrate_Active_not_here [of in_plane ?D ?B ?next step "Suc n"] by simp
  next
    case False
    then show ?thesis by (simp add: integrate_stops)
  qed
  then have tr: "(integrate in_plane step ?D ?B n ray = (Escaped, Suc n, ?next))
      = (\<not> ray_finite ?next \<or> exceeds (ray_r ?next) ESCAPE_R)"
    by (simp add: adv classify_session_Escaped)
  have final: "integrate in_plane step ?D ?B m ray' = (Escaped, m, ray')"
    if "classify in_plane ?D ?B ray' = Escaped"
    using that integrate_stops [of in_plane ?D ?B ray' step m] by simp
  have "ESCAPE_R = 10 ^ 30" by (simp add: ESCAPE_R_def)
  with tr final classify_session_Escaped [of in_plane env w h ray'] show ?thesis by blast
qed

theorem escaped_iff_nonfinite_or_beyond_escape_radius_witness:
  "classify never_in_plane (disk (configured demo_env 1200 900)) (blackHole (configured demo_env 1200 900))
     outbound_ray = Active \<and>
   0 < MAX_RAY_STEPS \<and>
   ray_r (radial_step outbound_ray D_LAMBDA) = Finite (2.9 * 10 ^ 30) \<and>
   exceeds (ray_r (radial_step outbound_ray D_LAMBDA)) ESCAPE_R \<and>
   integrate never_in_plane radial_step (disk (configured demo_env 1200 900)) (blackHole (configured demo_env 1200 900))
     0 outbound_ray = (Escaped, 1, radial_step outbound_ray D_LAMBDA) \<and>
   classify never_in_plane (disk (configured demo_env 1200 900)) (blackHole (configured demo_env 1200 900))
     (radial_step outbound_ray D_LAMBDA) = Escaped \<and>
   integrate never_in_plane radial_step (disk (configured demo_env 1200 900)) (blackHole (configured demo_env 1200 900))
     1 (radial_step outbound_ray D_LAMBDA) = (Escaped, 1, radial_step outbound_ray D_LAMBDA)"
proof -
  have h1: "classify never_in_plane (disk (configured demo_env 1200 900)) (blackHole (configured demo_env 1200 900))
     outbound_ray = Active"
    by (rule outbound_Active)
  have h2: "0 < MAX_RAY_STEPS"
    by (simp add: MAX_RAY_STEPS_def)
  have far: "exceeds (ray_r (radial_step outbound_ray D_LAMBDA)) ESCAPE_R"
    by (simp add: outbound_radial_step ESCAPE_R_def)
  from escaped_iff_nonfinite_or_beyond_escape_radius
         [OF h1 h2, of radial_step "radial_step outbound_ray D_LAMBDA" 1]
       h1 h2 far outbound_radial_step
  show ?thesis by simp
qed

end
